theory Spec2Isabelle
  imports Main "HOL-Library.Sublist"
begin

section \<open>The ketty plugin of protoc-gen-go (ketty.go)\<close>

text \<open>
  The plugin walks a file descriptor and prints Go source through the host generator.
  Strings are byte strings, as in Go. The functions of the host generator, of the
  protobuf runtime and of the Go standard library that the plugin calls are not part of
  ketty.go; those whose result depends on data the plugin does not hold are taken as
  parameters, collected in the record \<open>lib\<close>.
\<close>

subsection \<open>Run-time failures\<close>

datatype panic =
  InterfaceConversion   \<comment> \<open>a single-valued type assertion \<open>x.(T)\<close> on another dynamic type\<close>
  | NilDereference      \<comment> \<open>\<open>*p\<close> on a nil pointer\<close>
  | SliceBounds         \<comment> \<open>a slice expression out of range\<close>

subsection \<open>fmt.Sprintf, for the verbs the plugin uses\<close>

datatype farg = AStr string | AInt int

definition digit :: "nat \<Rightarrow> char" where
  "digit n = ''0123456789'' ! n"

fun digits :: "nat \<Rightarrow> string" where
  "digits n = (if n < 10 then [digit n] else digits (n div 10) @ [digit (n mod 10)])"

declare digits.simps [simp del]

definition fmt_d :: "int \<Rightarrow> string" where
  "fmt_d i = (if i < 0 then CHR ''-'' # digits (nat (- i)) else digits (nat i))"

text \<open>
  The plugin formats strings under \<open>%s\<close> and ints under \<open>%d\<close>, with no flag or
  width. One operand under one verb: \<open>%s\<close> and \<open>%v\<close> print a string as it is,
  \<open>%d\<close> and \<open>%v\<close> print an int in decimal; a string under \<open>%d\<close> and an int under
  \<open>%s\<close> are printed in fmt's bad-verb form, a missing operand as \<open>%!v(MISSING)\<close>,
  operands left over as \<open>%!(EXTRA ...)\<close>. The other verbs of fmt do not occur in the
  plugin; the model gives them the bad-verb form as well.
\<close>

fun verb :: "char \<Rightarrow> farg \<Rightarrow> string" where
  "verb c (AStr s) =
     (if c = CHR ''s'' \<or> c = CHR ''v'' then s
      else ''%!'' @ [c] @ ''(string='' @ s @ '')'')"
| "verb c (AInt i) =
     (if c = CHR ''d'' \<or> c = CHR ''v'' then fmt_d i
      else ''%!'' @ [c] @ ''(int='' @ fmt_d i @ '')'')"

fun extra :: "farg list \<Rightarrow> string" where
  "extra [] = []"
| "extra [AStr s] = ''string='' @ s"
| "extra [AInt i] = ''int='' @ fmt_d i"
| "extra (AStr s # a # as) = ''string='' @ s @ '', '' @ extra (a # as)"
| "extra (AInt i # a # as) = ''int='' @ fmt_d i @ '', '' @ extra (a # as)"

fun Sprintf :: "string \<Rightarrow> farg list \<Rightarrow> string" where
  "Sprintf [] [] = []"
| "Sprintf [] (a # as) = ''%!(EXTRA '' @ extra (a # as) @ '')''"
| "Sprintf [c] as = (if c = CHR ''%'' then ''%!(NOVERB)'' @ Sprintf [] as else c # Sprintf [] as)"
| "Sprintf (c # v # fs) as =
     (if c \<noteq> CHR ''%'' then c # Sprintf (v # fs) as
      else if v = CHR ''%'' then CHR ''%'' # Sprintf fs as
      else case as of
             [] \<Rightarrow> ''%!'' @ [v] @ ''(MISSING)'' @ Sprintf fs []
           | a # as' \<Rightarrow> verb v a @ Sprintf fs as')"


subsection \<open>Descriptors\<close>

text \<open>
  The fields of a descriptor are optional (pointers in Go); the getters give the zero
  value of the field's type for a field that is not set.
\<close>

record MethodDescriptorProto =
  method_Name :: "string option"
  InputType :: "string option"
  OutputType :: "string option"
  ClientStreaming :: "bool option"
  ServerStreaming :: "bool option"

record ServiceDescriptorProto =
  service_Name :: "string option"
  Method :: "MethodDescriptorProto list"

definition method_GetName :: "MethodDescriptorProto \<Rightarrow> string" where
  "method_GetName m = (case method_Name m of None \<Rightarrow> [] | Some n \<Rightarrow> n)"

definition GetInputType :: "MethodDescriptorProto \<Rightarrow> string" where
  "GetInputType m = (case InputType m of None \<Rightarrow> [] | Some n \<Rightarrow> n)"

definition GetOutputType :: "MethodDescriptorProto \<Rightarrow> string" where
  "GetOutputType m = (case OutputType m of None \<Rightarrow> [] | Some n \<Rightarrow> n)"

definition GetClientStreaming :: "MethodDescriptorProto \<Rightarrow> bool" where
  "GetClientStreaming m = (case ClientStreaming m of None \<Rightarrow> False | Some b \<Rightarrow> b)"

definition GetServerStreaming :: "MethodDescriptorProto \<Rightarrow> bool" where
  "GetServerStreaming m = (case ServerStreaming m of None \<Rightarrow> False | Some b \<Rightarrow> b)"

definition service_GetName :: "ServiceDescriptorProto \<Rightarrow> string" where
  "service_GetName s = (case service_Name s of None \<Rightarrow> [] | Some n \<Rightarrow> n)"

text \<open>
  The three extensions of ketty's include package, and a value of Go's \<open>interface{}\<close>
  as \<open>proto.GetExtension\<close> returns it: the nil interface, a \<open>*bool\<close> or a \<open>*string\<close>
  (each possibly a nil pointer), or a value of any other dynamic type. An \<open>error\<close> is
  nil (\<open>None\<close>) or carries a message.
\<close>

datatype ExtensionDesc = E_UseKettyHttpExtend | E_Transport | E_Marshal

datatype iface = NilIface | PtrBool "bool option" | PtrString "string option" | OtherType

type_synonym error = "string option"

text \<open>
  \<open>proto.GetExtension\<close> belongs to the protobuf runtime. A non-nil option set is
  represented by what the runtime returns for it: for each of the three extension
  descriptors, the pair of the value and the error.
\<close>

record MessageOptions =
  ext_UseKettyHttpExtend :: "iface \<times> error"
  ext_Transport :: "iface \<times> error"
  ext_Marshal :: "iface \<times> error"

fun GetExtension :: "MessageOptions \<Rightarrow> ExtensionDesc \<Rightarrow> iface \<times> error" where
  "GetExtension options E_UseKettyHttpExtend = ext_UseKettyHttpExtend options"
| "GetExtension options E_Transport = ext_Transport options"
| "GetExtension options E_Marshal = ext_Marshal options"

text \<open>
  \<open>message.Name\<close> is handed to the generator's \<open>P\<close>, which prints the string it
  points to; protoc always sets the name of a message, and the model holds that string.
\<close>

record DescriptorProto =
  message_Name :: string
  Options :: "MessageOptions option"

record FileDescriptor =
  Package :: "string option"
  Service :: "ServiceDescriptorProto list"
  MessageType :: "DescriptorProto list"

definition GetPackage :: "FileDescriptor \<Rightarrow> string" where
  "GetPackage file = (case Package file of None \<Rightarrow> [] | Some n \<Rightarrow> n)"

subsection \<open>The generator and the plugin's package variables\<close>

text \<open>
  Functions the plugin calls and does not define: \<open>generator.CamelCase\<close>; the printed
  name of the object a type name resolves to (\<open>g.gen.TypeName(g.gen.ObjectNamed(name))\<close>;
  the descriptors come from protoc, so every type name a method refers to resolves);
  \<open>generator.RegisterUniquePackageName\<close>; \<open>strconv.Quote\<close>; \<open>path.Join\<close> of two
  elements; and \<open>strings.ToLower\<close> on a string with a byte outside ASCII.
\<close>

record lib =
  CamelCase :: "string \<Rightarrow> string"
  TypeName_ObjectNamed :: "string \<Rightarrow> string"
  RegisterUniquePackageName :: "string \<Rightarrow> string"
  Quote :: "string \<Rightarrow> string"
  Join :: "string \<Rightarrow> string \<Rightarrow> string"
  ToLower_unicode :: "string \<Rightarrow> string"

text \<open>
  The state the plugin reads and writes: its package variables \<open>contextPkg\<close> and
  \<open>kettyPkg\<close>, the generator's import prefix, the type names recorded by
  \<open>RecordTypeUse\<close>, the output (one entry for each call of \<open>P\<close>, the line it prints,
  in order) and the lines written by \<open>println\<close>.
\<close>

record Generator =
  contextPkg :: string
  kettyPkg :: string
  ImportPrefix :: string
  usedTypes :: "string list"
  out :: "string list"
  stderr :: "string list"

definition kettyPkgPath :: string where
  "kettyPkgPath = ''github.com/yyzybb537/ketty''"

definition Name :: string where
  "Name = ''ketty''"

definition Init :: "lib \<Rightarrow> Generator \<Rightarrow> Generator" where
  "Init L g = g\<lparr>contextPkg := ''context'',
               kettyPkg := RegisterUniquePackageName L ''ketty''\<rparr>"

definition RecordTypeUse :: "string \<Rightarrow> Generator \<Rightarrow> Generator" where
  "RecordTypeUse name g = g\<lparr>usedTypes := usedTypes g @ [name]\<rparr>"

definition typeName :: "lib \<Rightarrow> string \<Rightarrow> Generator \<Rightarrow> string \<times> Generator" where
  "typeName L str g = (TypeName_ObjectNamed L str, RecordTypeUse str g)"

definition P :: "string list \<Rightarrow> Generator \<Rightarrow> Generator" where
  "P args g = g\<lparr>out := out g @ [concat args]\<rparr>"

definition println :: "string \<Rightarrow> Generator \<Rightarrow> Generator" where
  "println s g = g\<lparr>stderr := stderr g @ [s]\<rparr>"

subsection \<open>Message options\<close>

record kettyOptions =
  isUseKettyHttpExtend :: bool
  transport :: string
  marshal :: string

definition assert_PtrBool :: "iface \<Rightarrow> panic + bool option" where
  "assert_PtrBool i = (case i of PtrBool p \<Rightarrow> Inr p | _ \<Rightarrow> Inl InterfaceConversion)"

definition assert_PtrString :: "iface \<Rightarrow> panic + string option" where
  "assert_PtrString i = (case i of PtrString p \<Rightarrow> Inr p | _ \<Rightarrow> Inl InterfaceConversion)"

definition deref :: "'a option \<Rightarrow> panic + 'a" where
  "deref p = (case p of None \<Rightarrow> Inl NilDereference | Some v \<Rightarrow> Inr v)"

definition bind :: "panic + 'a \<Rightarrow> ('a \<Rightarrow> panic + 'b) \<Rightarrow> panic + 'b" where
  "bind r f = (case r of Inl e \<Rightarrow> Inl e | Inr v \<Rightarrow> f v)"

text \<open>
  \<open>getKettyOptions(message)\<close> reads \<open>message.Options\<close> only; its one caller passes a
  message whose option set is not nil, and the parameter here is that option set.
\<close>

definition getKettyOptions :: "MessageOptions \<Rightarrow> panic + kettyOptions" where
  "getKettyOptions options =
     (let opts = \<lparr>isUseKettyHttpExtend = False, transport = [], marshal = []\<rparr>;
          (iisUseKettyHttpExtend, err) = GetExtension options E_UseKettyHttpExtend
      in bind (if err = None
               then bind (assert_PtrBool iisUseKettyHttpExtend) (\<lambda>p.
                      if p \<noteq> None
                      then bind (assert_PtrBool iisUseKettyHttpExtend) (\<lambda>q.
                             bind (deref q) (\<lambda>v. Inr (opts\<lparr>isUseKettyHttpExtend := v\<rparr>)))
                      else Inr opts)
               else Inr opts) (\<lambda>opts.
         let (iTransport, err) = GetExtension options E_Transport
         in bind (if err = None
                  then bind (assert_PtrString iTransport) (\<lambda>p.
                         if p \<noteq> None
                         then bind (assert_PtrString iTransport) (\<lambda>q.
                                bind (deref q) (\<lambda>v. Inr (opts\<lparr>transport := v\<rparr>)))
                         else Inr opts)
                  else Inr opts) (\<lambda>opts.
            let (iMarshal, err) = GetExtension options E_Marshal
            in bind (if err = None
                     then bind (assert_PtrString iMarshal) (\<lambda>p.
                            if p \<noteq> None
                            then bind (assert_PtrString iMarshal) (\<lambda>q.
                                   bind (deref q) (\<lambda>v. Inr (opts\<lparr>marshal := v\<rparr>)))
                            else Inr opts)
                     else Inr opts) (\<lambda>opts. Inr opts))))"

definition generateOptionMethods :: "DescriptorProto \<Rightarrow> kettyOptions \<Rightarrow> Generator \<Rightarrow> Generator" where
  \<open>generateOptionMethods message opts g =
     (let g = (if isUseKettyHttpExtend opts
               then P [] (P [''func (*'', message_Name message, '') KettyHttpExtendMessage() {}''] g)
               else g);
          g = (if marshal opts \<noteq> []
               then P [] (P [''}'']
                      (P [''return "'', marshal opts, ''"'']
                      (P [''func (*'', message_Name message, '') KettyMarshal() string {''] g)))
               else g);
          g = (if transport opts \<noteq> []
               then P [] (P [''}'']
                      (P [''return "'', transport opts, ''"'']
                      (P [''func (*'', message_Name message, '') KettyTransport() string {''] g)))
               else g)
      in g)\<close>

subsection \<open>Imports\<close>

definition GenerateImports :: "lib \<Rightarrow> FileDescriptor \<Rightarrow> Generator \<Rightarrow> Generator" where
  "GenerateImports L file g =
     (if length (Service file) = 0 then g
      else P [] (P ['')'']
             (P [kettyPkg g, '' '', Quote L (Join L (ImportPrefix g) kettyPkgPath)]
             (P [''import (''] g))))"

subsection \<open>Names\<close>

text \<open>
  \<open>reservedClientName\<close> is a \<open>map[string]bool\<close> with no entry, and nothing writes to
  it; indexing a Go map at a missing key gives the zero value \<open>false\<close>.
\<close>

definition reservedClientName :: "string \<rightharpoonup> bool" where
  "reservedClientName = Map.empty"

definition index_bool :: "(string \<rightharpoonup> bool) \<Rightarrow> string \<Rightarrow> bool" where
  "index_bool m k = (case m k of None \<Rightarrow> False | Some b \<Rightarrow> b)"

text \<open>
  \<open>strings.ToLower\<close>: on a string of ASCII bytes it maps \<open>A..Z\<close> to \<open>a..z\<close> byte by
  byte; any other string goes through the Unicode mapping of the standard library.
\<close>

definition lower_byte :: "char \<Rightarrow> char" where
  "lower_byte c =
     (if 65 \<le> (of_char c :: nat) \<and> (of_char c :: nat) \<le> 90
      then char_of ((of_char c :: nat) + 32) else c)"

definition ToLower :: "lib \<Rightarrow> string \<Rightarrow> string" where
  "ToLower L s =
     (if list_all (\<lambda>c. (of_char c :: nat) < 128) s then map lower_byte s
      else ToLower_unicode L s)"

text \<open>The slice expressions \<open>s[:i]\<close> and \<open>s[i:]\<close> on a string, which panic out of range.\<close>

definition slice_to :: "string \<Rightarrow> nat \<Rightarrow> panic + string" where
  "slice_to s i = (if i \<le> length s then Inr (take i s) else Inl SliceBounds)"

definition slice_from :: "string \<Rightarrow> nat \<Rightarrow> panic + string" where
  "slice_from s i = (if i \<le> length s then Inr (drop i s) else Inl SliceBounds)"

definition unexport :: "lib \<Rightarrow> string \<Rightarrow> panic + string" where
  "unexport L s =
     bind (slice_to s 1) (\<lambda>a.
     bind (slice_from s 1) (\<lambda>b. Inr (ToLower L a @ b)))"


subsection \<open>Services\<close>

text \<open>
  \<open>generateClientSignature\<close> returns the client-side signature of a method. The two
  calls of \<open>typeName\<close> run whatever the streaming flags are, the one for the input type
  first.
\<close>

definition generateClientSignature ::
  "lib \<Rightarrow> string \<Rightarrow> MethodDescriptorProto \<Rightarrow> Generator \<Rightarrow> string \<times> Generator" where
  "generateClientSignature L servName method g =
     (let origMethName = method_GetName method;
          methName = CamelCase L origMethName;
          methName = (if index_bool reservedClientName methName then methName @ ''_'' else methName);
          (inType, g) = typeName L (GetInputType method) g;
          reqArg = '', in *'' @ inType;
          reqArg = (if GetClientStreaming method then [] else reqArg);
          (outType, g) = typeName L (GetOutputType method) g;
          respName = ''*'' @ outType;
          respName = (if GetServerStreaming method \<or> GetClientStreaming method
                      then servName @ ''_'' @ CamelCase L origMethName @ ''Client''
                      else respName)
      in (Sprintf ''%s(ctx %s.Context%s) (%s, error)''
            [AStr methName, AStr (contextPkg g), AStr reqArg, AStr respName], g))"

text \<open>
  \<open>generateClientMethod\<close> prints one client method. The arguments \<open>fullServName\<close>,
  \<open>serviceDescVar\<close> and \<open>descExpr\<close> are received and not used.
\<close>

definition generateClientMethod ::
  "lib \<Rightarrow> string \<Rightarrow> string \<Rightarrow> string \<Rightarrow> MethodDescriptorProto \<Rightarrow> string \<Rightarrow> Generator \<Rightarrow> Generator" where
  \<open>generateClientMethod L servName fullServName serviceDescVar method descExpr g =
     (let methName = CamelCase L (method_GetName method);
          (outType, g) = typeName L (GetOutputType method) g;
          (sig, g) = generateClientSignature L servName method g;
          g = P [''func (this *Ketty'', servName, ''Client) '', sig, ''{''] g;
          g = P [''out := new('', outType, '')''] g;
          g = P [''err := '', Sprintf ''this.client.Invoke(ctx, %sHandle, "%s", in, out)''
                                [AStr servName, AStr methName]] g;
          g = P [''if err != nil { return nil, err }''] g;
          g = P [''return out, nil''] g;
          g = P [''}''] g;
          g = P [] g
      in g)\<close>

text \<open>
  The body of the loop over the methods of a service, up to the call of
  \<open>generateClientMethod\<close>: the descriptor expression of the method and the two counters
  after it. The counters are Go ints that start at 0 and count methods of a slice, whose
  length is itself an int, so they never wrap.
\<close>

definition method_descExpr :: "string \<Rightarrow> MethodDescriptorProto \<Rightarrow> int \<Rightarrow> int \<Rightarrow> string \<times> int \<times> int" where
  "method_descExpr serviceDescVar method methodIndex streamIndex =
     (if \<not> GetServerStreaming method \<and> \<not> GetClientStreaming method
      then (Sprintf ''&%s.Methods[%d]'' [AStr serviceDescVar, AInt methodIndex],
            methodIndex + 1, streamIndex)
      else (Sprintf ''&%s.Streams[%d]'' [AStr serviceDescVar, AInt streamIndex],
            methodIndex, streamIndex + 1))"

fun methods_loop ::
  "lib \<Rightarrow> string \<Rightarrow> string \<Rightarrow> string \<Rightarrow> MethodDescriptorProto list \<Rightarrow> int \<Rightarrow> int \<Rightarrow> Generator \<Rightarrow> Generator" where
  "methods_loop L servName fullServName serviceDescVar [] methodIndex streamIndex g = g"
| "methods_loop L servName fullServName serviceDescVar (method # rest) methodIndex streamIndex g =
     (case method_descExpr serviceDescVar method methodIndex streamIndex of
        (descExpr, methodIndex', streamIndex') \<Rightarrow>
          methods_loop L servName fullServName serviceDescVar rest methodIndex' streamIndex'
            (generateClientMethod L servName fullServName serviceDescVar method descExpr g))"

text \<open>
  The descriptor expressions the loop computes, one for each method in order: the values
  of \<open>descExpr\<close> that \<open>methods_loop\<close> hands to \<open>generateClientMethod\<close>.
\<close>

fun loop_descExprs :: "string \<Rightarrow> MethodDescriptorProto list \<Rightarrow> int \<Rightarrow> int \<Rightarrow> string list" where
  "loop_descExprs serviceDescVar [] methodIndex streamIndex = []"
| "loop_descExprs serviceDescVar (method # rest) methodIndex streamIndex =
     (case method_descExpr serviceDescVar method methodIndex streamIndex of
        (descExpr, methodIndex', streamIndex') \<Rightarrow>
          descExpr # loop_descExprs serviceDescVar rest methodIndex' streamIndex')"

definition generateService ::
  "lib \<Rightarrow> FileDescriptor \<Rightarrow> ServiceDescriptorProto \<Rightarrow> int \<Rightarrow> Generator \<Rightarrow> Generator" where
  "generateService L file service index g =
     (let origServName = service_GetName service;
          fullServName = origServName;
          pkg = GetPackage file;
          fullServName = (if pkg \<noteq> [] then pkg @ ''.'' @ fullServName else fullServName);
          servName = CamelCase L origServName;
          handleT = servName @ ''HandleT'';
          g = P [Sprintf ''type %s struct {'' [AStr handleT]] g;
          g = P [''desc *grpc.ServiceDesc''] g;
          g = P [''}''] g;
          g = P [] g;
          g = P [Sprintf ''func (h *%s) Implement() interface{} {'' [AStr handleT]] g;
          g = P [''return h.desc''] g;
          g = P [''}''] g;
          g = P [] g;
          g = P [Sprintf ''func (h *%s) ServiceName() string {'' [AStr handleT]] g;
          g = P [''return h.desc.ServiceName''] g;
          g = P [''}''] g;
          g = P [] g;
          g = P [Sprintf ''var %sHandle = &%s{ desc : &_%s_serviceDesc }''
                   [AStr servName, AStr handleT, AStr servName]] g;
          g = P [] g;
          g = P [''type Ketty'', servName, ''Client struct {''] g;
          g = P [''client '', kettyPkg g, ''.Client''] g;
          g = P [''}''] g;
          g = P [] g;
          g = P [''func NewKetty'', servName, ''Client (client '', kettyPkg g, ''.Client) '',
                 ''*Ketty'', servName, ''Client {''] g;
          g = P [''return &Ketty'', servName, ''Client{client}''] g;
          g = P [''}''] g;
          g = P [] g;
          serviceDescVar = ''_'' @ servName @ ''_serviceDesc''
      in methods_loop L servName fullServName serviceDescVar (Method service) 0 0 g)"

subsection \<open>The pass over a file\<close>

fun services_loop ::
  "lib \<Rightarrow> FileDescriptor \<Rightarrow> ServiceDescriptorProto list \<Rightarrow> int \<Rightarrow> Generator \<Rightarrow> Generator" where
  "services_loop L file [] i g = g"
| "services_loop L file (service # rest) i g =
     services_loop L file rest (i + 1) (generateService L file service i g)"

fun messages_loop :: "DescriptorProto list \<Rightarrow> Generator \<Rightarrow> panic + Generator" where
  "messages_loop [] g = Inr g"
| "messages_loop (message # rest) g =
     (case Options message of
        None \<Rightarrow> messages_loop rest g
      | Some options \<Rightarrow>
          bind (getKettyOptions options) (\<lambda>opts.
            messages_loop rest (generateOptionMethods message opts g)))"

definition Generate :: "lib \<Rightarrow> FileDescriptor \<Rightarrow> Generator \<Rightarrow> panic + Generator" where
  "Generate L file g =
     (if length (Service file) = 0 then Inr g
      else
        let g = println ''ketty.Generate'' g;
            g = P [''// Reference imports to suppress errors if they are not otherwise used.''] g;
            g = P [''var _ '', kettyPkg g, ''.Dummy''] g;
            g = P [] g;
            g = P [''// This is a compile-time assertion to ensure that this generated file''] g;
            g = P [''// is compatible with the ketty package it is being compiled against.''] g;
            g = P [] g;
            g = services_loop L file (Service file) 0 g
        in messages_loop (MessageType file) g)"


subsection \<open>An example file\<close>

text \<open>
  Concrete inputs on which the theorems below are evaluated. The library instance
  \<open>demo_lib\<close> leaves a name that is already camel-cased as it is, and prints the two
  message types of package \<open>demo\<close> under their Go names.
\<close>

definition demo_lib :: lib where
  \<open>demo_lib =
     \<lparr>CamelCase = (\<lambda>s. s),
      TypeName_ObjectNamed = (\<lambda>s. if s = ''.demo.EchoRequest'' then ''EchoRequest''
                                  else if s = ''.demo.EchoResponse'' then ''EchoResponse'' else s),
      RegisterUniquePackageName = (\<lambda>s. s),
      Quote = (\<lambda>s. ''"'' @ s @ ''"''),
      Join = (\<lambda>a b. if a = [] then b else a @ ''/'' @ b),
      ToLower_unicode = (\<lambda>s. s)\<rparr>\<close>

definition demo_generator :: Generator where
  "demo_generator =
     Init demo_lib \<lparr>contextPkg = [], kettyPkg = [], ImportPrefix = [], usedTypes = [],
                    out = [], stderr = []\<rparr>"

definition demo_Say :: MethodDescriptorProto where
  "demo_Say =
     \<lparr>method_Name = Some ''Say'', InputType = Some ''.demo.EchoRequest'',
      OutputType = Some ''.demo.EchoResponse'', ClientStreaming = None, ServerStreaming = None\<rparr>"

definition demo_Upload :: MethodDescriptorProto where
  "demo_Upload =
     \<lparr>method_Name = Some ''Upload'', InputType = Some ''.demo.EchoRequest'',
      OutputType = Some ''.demo.EchoResponse'', ClientStreaming = Some True, ServerStreaming = None\<rparr>"

definition demo_Watch :: MethodDescriptorProto where
  "demo_Watch =
     \<lparr>method_Name = Some ''Watch'', InputType = Some ''.demo.EchoRequest'',
      OutputType = Some ''.demo.EchoResponse'', ClientStreaming = Some False, ServerStreaming = Some True\<rparr>"

definition demo_Echo :: ServiceDescriptorProto where
  "demo_Echo = \<lparr>service_Name = Some ''Echo'', Method = [demo_Say]\<rparr>"

definition demo_Mixed :: ServiceDescriptorProto where
  "demo_Mixed = \<lparr>service_Name = Some ''Mixed'', Method = [demo_Upload, demo_Say, demo_Watch, demo_Say]\<rparr>"

definition demo_options :: MessageOptions where
  "demo_options =
     \<lparr>ext_UseKettyHttpExtend = (PtrBool (Some True), None),
      ext_Transport = (PtrString None, None),
      ext_Marshal = (NilIface, Some ''proto: bad extension value type'')\<rparr>"

definition demo_mismatch :: MessageOptions where
  "demo_mismatch =
     \<lparr>ext_UseKettyHttpExtend = (PtrString (Some ''yes''), None),
      ext_Transport = (NilIface, Some ''proto: missing extension''),
      ext_Marshal = (NilIface, Some ''proto: missing extension'')\<rparr>"

definition demo_message :: DescriptorProto where
  "demo_message = \<lparr>message_Name = ''EchoRequest'', Options = Some demo_options\<rparr>"

definition demo_file :: FileDescriptor where
  "demo_file = \<lparr>Package = Some ''demo'', Service = [demo_Echo], MessageType = [demo_message]\<rparr>"

definition demo_file_no_service :: FileDescriptor where
  "demo_file_no_service = \<lparr>Package = Some ''demo'', Service = [], MessageType = [demo_message]\<rparr>"

lemmas demo_defs =
  demo_lib_def demo_generator_def demo_Say_def demo_Upload_def demo_Watch_def demo_Echo_def
  demo_Mixed_def demo_options_def demo_mismatch_def demo_message_def demo_file_def
  demo_file_no_service_def

lemmas getter_defs =
  method_GetName_def GetInputType_def GetOutputType_def GetClientStreaming_def
  GetServerStreaming_def service_GetName_def GetPackage_def


section \<open>Auxiliary facts\<close>

lemma bind_Inr [simp]: "bind (Inr v) f = f v"
  by (simp add: bind_def)

lemma bind_Inl [simp]: "bind (Inl e) f = Inl e"
  by (simp add: bind_def)

lemma index_reservedClientName [simp]: "index_bool reservedClientName n = False"
  by (simp add: index_bool_def reservedClientName_def)

lemma digits_small: "n < 10 \<Longrightarrow> digits n = [digit n]"
  by (simp add: digits.simps)

subsection \<open>The format strings of the plugin\<close>

lemma Sprintf_Methods:
  "Sprintf ''&%s.Methods[%d]'' [AStr v, AInt i] = ''&'' @ v @ ''.Methods['' @ fmt_d i @ '']''"
  by simp

lemma Sprintf_Streams:
  "Sprintf ''&%s.Streams[%d]'' [AStr v, AInt i] = ''&'' @ v @ ''.Streams['' @ fmt_d i @ '']''"
  by simp

lemma Sprintf_signature:
  "Sprintf ''%s(ctx %s.Context%s) (%s, error)'' [AStr a, AStr b, AStr c, AStr d] =
   a @ ''(ctx '' @ b @ ''.Context'' @ c @ '') ('' @ d @ '', error)''"
  by simp

lemma Sprintf_Invoke:
  \<open>Sprintf ''this.client.Invoke(ctx, %sHandle, "%s", in, out)'' [AStr a, AStr b] =
   ''this.client.Invoke(ctx, '' @ a @ ''Handle, "'' @ b @ ''", in, out)''\<close>
  by simp

lemma Sprintf_type: "Sprintf ''type %s struct {'' [AStr a] = ''type '' @ a @ '' struct {''"
  by simp

lemma Sprintf_Implement:
  "Sprintf ''func (h *%s) Implement() interface{} {'' [AStr a] =
   ''func (h *'' @ a @ '') Implement() interface{} {''"
  by simp

lemma Sprintf_ServiceName:
  "Sprintf ''func (h *%s) ServiceName() string {'' [AStr a] =
   ''func (h *'' @ a @ '') ServiceName() string {''"
  by simp

lemma Sprintf_Handle:
  "Sprintf ''var %sHandle = &%s{ desc : &_%s_serviceDesc }'' [AStr a, AStr b, AStr c] =
   ''var '' @ a @ ''Handle = &'' @ b @ ''{ desc : &_'' @ c @ ''_serviceDesc }''"
  by simp

subsection \<open>What each printing function appends\<close>

lemma generateOptionMethods_eq:
  \<open>generateOptionMethods message opts g =
   g\<lparr>out := out g
     @ (if isUseKettyHttpExtend opts
        then [''func (*'' @ message_Name message @ '') KettyHttpExtendMessage() {}'', []] else [])
     @ (if marshal opts \<noteq> []
        then [''func (*'' @ message_Name message @ '') KettyMarshal() string {'',
              ''return "'' @ marshal opts @ ''"'', ''}'', []] else [])
     @ (if transport opts \<noteq> []
        then [''func (*'' @ message_Name message @ '') KettyTransport() string {'',
              ''return "'' @ transport opts @ ''"'', ''}'', []] else [])\<rparr>\<close>
  by (simp add: generateOptionMethods_def P_def Let_def)

lemma generateClientSignature_eq:
  "generateClientSignature L servName method g =
     (CamelCase L (method_GetName method) @ ''(ctx '' @ contextPkg g @ ''.Context'' @
        (if GetClientStreaming method then []
         else '', in *'' @ TypeName_ObjectNamed L (GetInputType method)) @
        '') ('' @
        (if GetServerStreaming method \<or> GetClientStreaming method
         then servName @ ''_'' @ CamelCase L (method_GetName method) @ ''Client''
         else ''*'' @ TypeName_ObjectNamed L (GetOutputType method)) @ '', error)'',
      g\<lparr>usedTypes := usedTypes g @ [GetInputType method, GetOutputType method]\<rparr>)"
  unfolding generateClientSignature_def Let_def typeName_def prod.case Sprintf_signature
  by (simp add: RecordTypeUse_def)

lemma generateClientMethod_eq:
  \<open>generateClientMethod L servName fullServName serviceDescVar method descExpr g =
     g\<lparr>usedTypes := usedTypes g @ [GetOutputType method, GetInputType method, GetOutputType method],
       out := out g @
        [''func (this *Ketty'' @ servName @ ''Client) '' @
           fst (generateClientSignature L servName method g) @ ''{'',
         ''out := new('' @ TypeName_ObjectNamed L (GetOutputType method) @ '')'',
         ''err := this.client.Invoke(ctx, '' @ servName @ ''Handle, "'' @
           CamelCase L (method_GetName method) @ ''", in, out)'',
         ''if err != nil { return nil, err }'',
         ''return out, nil'',
         ''}'',
         []]\<rparr>\<close>
  unfolding generateClientMethod_def Let_def typeName_def prod.case generateClientSignature_eq
    Sprintf_Invoke fst_conv
  by (simp add: RecordTypeUse_def P_def)

lemma generateService_eq:
  "generateService L file service index g =
     methods_loop L (CamelCase L (service_GetName service))
       (if GetPackage file \<noteq> [] then GetPackage file @ ''.'' @ service_GetName service
        else service_GetName service)
       (''_'' @ CamelCase L (service_GetName service) @ ''_serviceDesc'') (Method service) 0 0
       (g\<lparr>out := out g @
          [''type '' @ CamelCase L (service_GetName service) @ ''HandleT struct {'',
           ''desc *grpc.ServiceDesc'',
           ''}'',
           [],
           ''func (h *'' @ CamelCase L (service_GetName service) @
             ''HandleT) Implement() interface{} {'',
           ''return h.desc'',
           ''}'',
           [],
           ''func (h *'' @ CamelCase L (service_GetName service) @
             ''HandleT) ServiceName() string {'',
           ''return h.desc.ServiceName'',
           ''}'',
           [],
           ''var '' @ CamelCase L (service_GetName service) @ ''Handle = &'' @
             CamelCase L (service_GetName service) @ ''HandleT{ desc : &_'' @
             CamelCase L (service_GetName service) @ ''_serviceDesc }'',
           [],
           ''type Ketty'' @ CamelCase L (service_GetName service) @ ''Client struct {'',
           ''client '' @ kettyPkg g @ ''.Client'',
           ''}'',
           [],
           ''func NewKetty'' @ CamelCase L (service_GetName service) @ ''Client (client '' @
             kettyPkg g @ ''.Client) *Ketty'' @ CamelCase L (service_GetName service) @
             ''Client {'',
           ''return &Ketty'' @ CamelCase L (service_GetName service) @ ''Client{client}'',
           ''}'',
           []]\<rparr>)"
  unfolding generateService_def Let_def Sprintf_type Sprintf_Implement Sprintf_ServiceName
    Sprintf_Handle
  by (simp add: P_def)

subsection \<open>The loop over the methods\<close>

lemma length_loop_descExprs: "length (loop_descExprs v ms mi si) = length ms"
  by (induction ms arbitrary: mi si) (auto simp: method_descExpr_def)

lemma methods_loop_fold:
  "methods_loop L sn fsn v ms mi si g =
   fold (\<lambda>(m, d). generateClientMethod L sn fsn v m d) (zip ms (loop_descExprs v ms mi si)) g"
  by (induction ms arbitrary: mi si g) (auto simp: method_descExpr_def)

lemma loop_descExprs_nth:
  "k < length ms \<Longrightarrow>
   loop_descExprs v ms mi si ! k =
     (if \<not> GetServerStreaming (ms ! k) \<and> \<not> GetClientStreaming (ms ! k)
      then ''&'' @ v @ ''.Methods['' @
           fmt_d (mi + int (length (filter (\<lambda>m. \<not> GetServerStreaming m \<and> \<not> GetClientStreaming m)
                                     (take k ms)))) @ '']''
      else ''&'' @ v @ ''.Streams['' @
           fmt_d (si + int (length (filter (\<lambda>m. \<not> (\<not> GetServerStreaming m \<and> \<not> GetClientStreaming m))
                                     (take k ms)))) @ '']'')"
proof (induction ms arbitrary: k mi si)
  case Nil
  then show ?case by simp
next
  case (Cons m ms)
  show ?case
  proof (cases k)
    case 0
    then show ?thesis by (simp add: method_descExpr_def)
  next
    case (Suc j)
    with Cons.prems have j: "j < length ms" by simp
    show ?thesis
      using Cons.IH [OF j] Suc
      by (simp add: method_descExpr_def add.assoc)
  qed
qed

lemma loop_descExprs_unary:
  "map snd (filter (\<lambda>(m, d). \<not> GetServerStreaming m \<and> \<not> GetClientStreaming m)
              (zip ms (loop_descExprs v ms mi si))) =
   map (\<lambda>i. ''&'' @ v @ ''.Methods['' @ fmt_d (mi + int i) @ '']'')
     [0..<length (filter (\<lambda>m. \<not> GetServerStreaming m \<and> \<not> GetClientStreaming m) ms)]"
proof (induction ms arbitrary: mi si)
  case Nil
  then show ?case by simp
next
  case (Cons m ms)
  show ?case
  proof (cases "\<not> GetServerStreaming m \<and> \<not> GetClientStreaming m")
    case True
    have "map (\<lambda>i. ''&'' @ v @ ''.Methods['' @ fmt_d (mi + 1 + int i) @ '']'') [0..<n]
        = map (\<lambda>i. ''&'' @ v @ ''.Methods['' @ fmt_d (mi + int i) @ '']'') (map Suc [0..<n])" for n
      by (simp add: add.assoc)
    then show ?thesis
      using True Cons.IH [of "mi + 1" si]
      by (simp add: method_descExpr_def upt_conv_Cons map_Suc_upt del: upt_Suc map_map)
  next
    case False
    then show ?thesis
      using Cons.IH [of mi "si + 1"]
      by (auto simp add: method_descExpr_def)
  qed
qed

lemma loop_descExprs_streaming:
  "map snd (filter (\<lambda>(m, d). \<not> (\<not> GetServerStreaming m \<and> \<not> GetClientStreaming m))
              (zip ms (loop_descExprs v ms mi si))) =
   map (\<lambda>i. ''&'' @ v @ ''.Streams['' @ fmt_d (si + int i) @ '']'')
     [0..<length (filter (\<lambda>m. \<not> (\<not> GetServerStreaming m \<and> \<not> GetClientStreaming m)) ms)]"
proof (induction ms arbitrary: mi si)
  case Nil
  then show ?case by simp
next
  case (Cons m ms)
  show ?case
  proof (cases "\<not> GetServerStreaming m \<and> \<not> GetClientStreaming m")
    case False
    have "map (\<lambda>i. ''&'' @ v @ ''.Streams['' @ fmt_d (si + 1 + int i) @ '']'') [0..<n]
        = map (\<lambda>i. ''&'' @ v @ ''.Streams['' @ fmt_d (si + int i) @ '']'') (map Suc [0..<n])" for n
      by (simp add: add.assoc)
    then show ?thesis
      using False Cons.IH [of mi "si + 1"]
      by (auto simp add: method_descExpr_def upt_conv_Cons map_Suc_upt simp del: upt_Suc map_map)
  next
    case True
    then show ?thesis
      using Cons.IH [of "mi + 1" si]
      by (auto simp add: method_descExpr_def)
  qed
qed


subsection \<open>Printing depends on the package variables only\<close>

text \<open>
  Started in two states that agree on \<open>contextPkg\<close> and \<open>kettyPkg\<close>, each function
  of the pass appends the same lines and records the same type names, whatever the two
  states hold already.
\<close>

lemma methods_loop_frame:
  "contextPkg g' = contextPkg g \<Longrightarrow>
   \<exists>us ls. methods_loop L sn fsn v ms mi si g = g\<lparr>usedTypes := usedTypes g @ us, out := out g @ ls\<rparr>
         \<and> methods_loop L sn fsn v ms mi si g' = g'\<lparr>usedTypes := usedTypes g' @ us, out := out g' @ ls\<rparr>"
proof (induction ms arbitrary: mi si g g')
  case Nil
  have "g = g\<lparr>usedTypes := usedTypes g @ [], out := out g @ []\<rparr>"
       "g' = g'\<lparr>usedTypes := usedTypes g' @ [], out := out g' @ []\<rparr>" by simp_all
  then show ?case by (metis methods_loop.simps(1))
next
  case (Cons m ms)
  obtain d mi' si' where step: "method_descExpr v m mi si = (d, mi', si')"
    by (cases "method_descExpr v m mi si")
  let ?g1 = "generateClientMethod L sn fsn v m d g"
  let ?g1' = "generateClientMethod L sn fsn v m d g'"
  obtain u1 l1 where g1: "?g1 = g\<lparr>usedTypes := usedTypes g @ u1, out := out g @ l1\<rparr>"
     and g1': "?g1' = g'\<lparr>usedTypes := usedTypes g' @ u1, out := out g' @ l1\<rparr>"
    using Cons.prems by (simp add: generateClientMethod_eq generateClientSignature_eq)
  have "contextPkg ?g1' = contextPkg ?g1"
    using Cons.prems by (simp add: g1 g1')
  from Cons.IH [OF this, of mi' si'] obtain us ls
    where r: "methods_loop L sn fsn v ms mi' si' ?g1 =
                ?g1\<lparr>usedTypes := usedTypes ?g1 @ us, out := out ?g1 @ ls\<rparr>"
      and r': "methods_loop L sn fsn v ms mi' si' ?g1' =
                ?g1'\<lparr>usedTypes := usedTypes ?g1' @ us, out := out ?g1' @ ls\<rparr>"
    by blast
  have "methods_loop L sn fsn v (m # ms) mi si g =
          g\<lparr>usedTypes := usedTypes g @ (u1 @ us), out := out g @ (l1 @ ls)\<rparr>"
    by (simp add: step r) (simp add: g1)
  moreover have "methods_loop L sn fsn v (m # ms) mi si g' =
          g'\<lparr>usedTypes := usedTypes g' @ (u1 @ us), out := out g' @ (l1 @ ls)\<rparr>"
    by (simp add: step r') (simp add: g1')
  ultimately show ?case by blast
qed

lemma generateService_frame:
  assumes "contextPkg g' = contextPkg g" "kettyPkg g' = kettyPkg g"
  shows "\<exists>us ls. generateService L file service i g = g\<lparr>usedTypes := usedTypes g @ us, out := out g @ ls\<rparr>
         \<and> generateService L file service i g' = g'\<lparr>usedTypes := usedTypes g' @ us, out := out g' @ ls\<rparr>"
proof -
  let ?sn = "CamelCase L (service_GetName service)"
  let ?fsn = "if GetPackage file \<noteq> [] then GetPackage file @ ''.'' @ service_GetName service
              else service_GetName service"
  obtain h where
    e: "generateService L file service i g =
          methods_loop L ?sn ?fsn (''_'' @ ?sn @ ''_serviceDesc'') (Method service) 0 0
            (g\<lparr>out := out g @ h\<rparr>)"
    and e': "generateService L file service i g' =
          methods_loop L ?sn ?fsn (''_'' @ ?sn @ ''_serviceDesc'') (Method service) 0 0
            (g'\<lparr>out := out g' @ h\<rparr>)"
    using assms(2) by (simp add: generateService_eq)
  have "contextPkg (g'\<lparr>out := out g' @ h\<rparr>) = contextPkg (g\<lparr>out := out g @ h\<rparr>)"
    using assms(1) by simp
  from methods_loop_frame [OF this] obtain us ls where
     "generateService L file service i g =
        (g\<lparr>out := out g @ h\<rparr>)\<lparr>usedTypes := usedTypes (g\<lparr>out := out g @ h\<rparr>) @ us,
                                 out := out (g\<lparr>out := out g @ h\<rparr>) @ ls\<rparr>"
     "generateService L file service i g' =
        (g'\<lparr>out := out g' @ h\<rparr>)\<lparr>usedTypes := usedTypes (g'\<lparr>out := out g' @ h\<rparr>) @ us,
                                   out := out (g'\<lparr>out := out g' @ h\<rparr>) @ ls\<rparr>"
    unfolding e e' by blast
  then have "generateService L file service i g =
               g\<lparr>usedTypes := usedTypes g @ us, out := out g @ (h @ ls)\<rparr>"
     "generateService L file service i g' =
               g'\<lparr>usedTypes := usedTypes g' @ us, out := out g' @ (h @ ls)\<rparr>"
    by simp_all
  then show ?thesis by blast
qed

lemma services_loop_frame:
  "contextPkg g' = contextPkg g \<Longrightarrow> kettyPkg g' = kettyPkg g \<Longrightarrow>
   \<exists>us ls. services_loop L file ss i g = g\<lparr>usedTypes := usedTypes g @ us, out := out g @ ls\<rparr>
         \<and> services_loop L file ss i g' = g'\<lparr>usedTypes := usedTypes g' @ us, out := out g' @ ls\<rparr>"
proof (induction ss arbitrary: i g g')
  case Nil
  have "g = g\<lparr>usedTypes := usedTypes g @ [], out := out g @ []\<rparr>"
       "g' = g'\<lparr>usedTypes := usedTypes g' @ [], out := out g' @ []\<rparr>" by simp_all
  then show ?case by (metis services_loop.simps(1))
next
  case (Cons s ss)
  let ?g1 = "generateService L file s i g"
  let ?g1' = "generateService L file s i g'"
  from generateService_frame [OF Cons.prems] obtain u1 l1
    where g1: "?g1 = g\<lparr>usedTypes := usedTypes g @ u1, out := out g @ l1\<rparr>"
     and g1': "?g1' = g'\<lparr>usedTypes := usedTypes g' @ u1, out := out g' @ l1\<rparr>"
    by blast
  have c: "contextPkg ?g1' = contextPkg ?g1" "kettyPkg ?g1' = kettyPkg ?g1"
    using Cons.prems by (simp_all add: g1 g1')
  from Cons.IH [OF c, of "i + 1"] obtain us ls
    where r: "services_loop L file ss (i + 1) ?g1 =
                ?g1\<lparr>usedTypes := usedTypes ?g1 @ us, out := out ?g1 @ ls\<rparr>"
      and r': "services_loop L file ss (i + 1) ?g1' =
                ?g1'\<lparr>usedTypes := usedTypes ?g1' @ us, out := out ?g1' @ ls\<rparr>"
    by blast
  have "services_loop L file (s # ss) i g =
          g\<lparr>usedTypes := usedTypes g @ (u1 @ us), out := out g @ (l1 @ ls)\<rparr>"
    by (simp add: r) (simp add: g1)
  moreover have "services_loop L file (s # ss) i g' =
          g'\<lparr>usedTypes := usedTypes g' @ (u1 @ us), out := out g' @ (l1 @ ls)\<rparr>"
    by (simp add: r') (simp add: g1')
  ultimately show ?case by blast
qed

lemma generateOptionMethods_out:
  "\<exists>ls. \<forall>g. generateOptionMethods message opts g = g\<lparr>out := out g @ ls\<rparr>"
  using generateOptionMethods_eq by blast

lemma messages_loop_frame:
  "(\<exists>p. \<forall>g. messages_loop ms g = Inl p) \<or>
   (\<exists>ls. \<forall>g. messages_loop ms g = Inr (g\<lparr>out := out g @ ls\<rparr>))"
proof (induction ms)
  case Nil
  have "\<forall>g. messages_loop [] g = Inr (g\<lparr>out := out g @ []\<rparr>)" by simp
  then show ?case by blast
next
  case (Cons m ms)
  show ?case
  proof (cases "Options m")
    case None
    then show ?thesis using Cons.IH by simp
  next
    case (Some options)
    show ?thesis
    proof (cases "getKettyOptions options")
      case (Inl p)
      then show ?thesis using Some by simp
    next
      case (Inr opts)
      obtain l1 where l1: "\<And>g. generateOptionMethods m opts g = g\<lparr>out := out g @ l1\<rparr>"
        using generateOptionMethods_out by blast
      from Cons.IH show ?thesis
      proof
        assume "\<exists>p. \<forall>g. messages_loop ms g = Inl p"
        then obtain p where "\<And>g. messages_loop ms g = Inl p" by blast
        then have "\<forall>g. messages_loop (m # ms) g = Inl p" using Some Inr by simp
        then show ?thesis by blast
      next
        assume "\<exists>ls. \<forall>g. messages_loop ms g = Inr (g\<lparr>out := out g @ ls\<rparr>)"
        then obtain ls where ls: "\<And>g. messages_loop ms g = Inr (g\<lparr>out := out g @ ls\<rparr>)"
          by blast
        have "\<forall>g. messages_loop (m # ms) g = Inr (g\<lparr>out := out g @ (l1 @ ls)\<rparr>)"
          using Some Inr by (simp add: ls l1)
        then show ?thesis by blast
      qed
    qed
  qed
qed

lemma Generate_frame:
  assumes "contextPkg g' = contextPkg g" "kettyPkg g' = kettyPkg g"
  shows "(\<exists>p. Generate L file g = Inl p \<and> Generate L file g' = Inl p) \<or>
         (\<exists>us ls es.
            Generate L file g =
              Inr (g\<lparr>usedTypes := usedTypes g @ us, out := out g @ ls, stderr := stderr g @ es\<rparr>)
          \<and> Generate L file g' =
              Inr (g'\<lparr>usedTypes := usedTypes g' @ us, out := out g' @ ls, stderr := stderr g' @ es\<rparr>))"
proof (cases "length (Service file) = 0")
  case True
  have "g = g\<lparr>usedTypes := usedTypes g @ [], out := out g @ [], stderr := stderr g @ []\<rparr>"
       "g' = g'\<lparr>usedTypes := usedTypes g' @ [], out := out g' @ [], stderr := stderr g' @ []\<rparr>"
    by simp_all
  then have
    "Generate L file g =
       Inr (g\<lparr>usedTypes := usedTypes g @ [], out := out g @ [], stderr := stderr g @ []\<rparr>)"
    "Generate L file g' =
       Inr (g'\<lparr>usedTypes := usedTypes g' @ [], out := out g' @ [], stderr := stderr g' @ []\<rparr>)"
    using True by (simp_all add: Generate_def)
  then show ?thesis by blast
next
  case False
  let ?h = "[''// Reference imports to suppress errors if they are not otherwise used.'',
             ''var _ '' @ kettyPkg g @ ''.Dummy'', [],
             ''// This is a compile-time assertion to ensure that this generated file'',
             ''// is compatible with the ketty package it is being compiled against.'', []]"
  let ?a = "g\<lparr>stderr := stderr g @ [''ketty.Generate''], out := out g @ ?h\<rparr>"
  let ?a' = "g'\<lparr>stderr := stderr g' @ [''ketty.Generate''], out := out g' @ ?h\<rparr>"
  have G: "Generate L file g =
             messages_loop (MessageType file) (services_loop L file (Service file) 0 ?a)"
    using False by (simp add: Generate_def P_def println_def)
  have G': "Generate L file g' =
             messages_loop (MessageType file) (services_loop L file (Service file) 0 ?a')"
    using False assms(2) by (simp add: Generate_def P_def println_def)
  have "contextPkg ?a' = contextPkg ?a" "kettyPkg ?a' = kettyPkg ?a"
    using assms by simp_all
  from services_loop_frame [OF this] obtain us ls where
    S: "services_loop L file (Service file) 0 ?a =
          ?a\<lparr>usedTypes := usedTypes ?a @ us, out := out ?a @ ls\<rparr>"
    and S': "services_loop L file (Service file) 0 ?a' =
          ?a'\<lparr>usedTypes := usedTypes ?a' @ us, out := out ?a' @ ls\<rparr>"
    by blast
  from messages_loop_frame [of "MessageType file"] show ?thesis
  proof
    assume "\<exists>p. \<forall>g. messages_loop (MessageType file) g = Inl p"
    then show ?thesis using G G' by auto
  next
    assume "\<exists>ms. \<forall>g. messages_loop (MessageType file) g = Inr (g\<lparr>out := out g @ ms\<rparr>)"
    then obtain ms
      where M: "\<And>g. messages_loop (MessageType file) g = Inr (g\<lparr>out := out g @ ms\<rparr>)"
      by blast
    have "Generate L file g =
            Inr (g\<lparr>usedTypes := usedTypes g @ us, out := out g @ (?h @ ls @ ms),
                   stderr := stderr g @ [''ketty.Generate'']\<rparr>)"
      unfolding G S M by simp
    moreover have "Generate L file g' =
            Inr (g'\<lparr>usedTypes := usedTypes g' @ us, out := out g' @ (?h @ ls @ ms),
                    stderr := stderr g' @ [''ketty.Generate'']\<rparr>)"
      unfolding G' S' M by simp
    ultimately show ?thesis by blast
  qed
qed


lemma lower_byte_E: "lower_byte (CHR ''E'') = CHR ''e''"
  by code_simp

section \<open>The claims\<close>

subsection \<open>Dispatch indices of the methods of a service\<close>



subsection \<open>Resolving the options of a message\<close>




subsection \<open>Methods synthesised from the options\<close>

text \<open>
  Claim C3. For every message and resolved option record, \<open>generateOptionMethods\<close>
  leaves the state as it is but for the output, to which it appends exactly: the marker
  method \<open>KettyHttpExtendMessage\<close> (no argument, empty body) followed by an empty line,
  if and only if \<open>isUseKettyHttpExtend\<close> is true; then the method \<open>KettyMarshal\<close>
  returning the marshal string as a literal, if and only if \<open>marshal\<close> is not empty;
  then the method \<open>KettyTransport\<close> returning the transport string as a literal, if and
  only if \<open>transport\<close> is not empty. A record with the three fields at zero appends
  nothing, and the order is always marker, marshal accessor, transport accessor.
\<close>

theorem generateOptionMethods_emits:
  \<open>generateOptionMethods message opts g =
   g\<lparr>out := out g
     @ (if isUseKettyHttpExtend opts
        then [''func (*'' @ message_Name message @ '') KettyHttpExtendMessage() {}'', []]
        else [])
     @ (if marshal opts \<noteq> []
        then [''func (*'' @ message_Name message @ '') KettyMarshal() string {'',
              ''return "'' @ marshal opts @ ''"'',
              ''}'',
              []]
        else [])
     @ (if transport opts \<noteq> []
        then [''func (*'' @ message_Name message @ '') KettyTransport() string {'',
              ''return "'' @ transport opts @ ''"'',
              ''}'',
              []]
        else [])\<rparr>\<close>
  by (simp add: generateOptionMethods_eq)

theorem generateOptionMethods_emits_witness:
  \<open>out (generateOptionMethods demo_message
          \<lparr>isUseKettyHttpExtend = False, transport = ''http'', marshal = []\<rparr> demo_generator) =
     [''func (*EchoRequest) KettyTransport() string {'', ''return "http"'', ''}'', []]\<close>
  using generateOptionMethods_emits
    [of demo_message "\<lparr>isUseKettyHttpExtend = False, transport = ''http'', marshal = []\<rparr>"
        demo_generator]
  by (simp add: demo_message_def demo_generator_def Init_def)

subsection \<open>A file without services\<close>

text \<open>
  Claim C9. For every file that declares no service, \<open>Generate\<close> and
  \<open>GenerateImports\<close> return at once and leave the whole state as it is: nothing is
  printed, so the messages of such a file get no marker or accessor method, whatever
  options they carry.
\<close>

theorem Generate_no_service:
  "Service file = [] \<Longrightarrow> Generate L file g = Inr g \<and> GenerateImports L file g = g"
  by (simp add: Generate_def GenerateImports_def)

theorem Generate_no_service_witness:
  "Service demo_file_no_service = []
   \<and> MessageType demo_file_no_service = [demo_message]
   \<and> Generate demo_lib demo_file_no_service demo_generator = Inr demo_generator
   \<and> GenerateImports demo_lib demo_file_no_service demo_generator = demo_generator"
  using Generate_no_service [of demo_file_no_service demo_lib demo_generator]
  by (simp add: demo_file_no_service_def)

subsection \<open>unexport\<close>




subsection \<open>The client signature\<close>

text \<open>
  Claim C4. In the signature that \<open>generateClientSignature\<close> returns for a method of a
  service, called as \<open>generateService\<close> calls it (with the camel-cased service name), the
  result type is exactly \<open>CamelCase(serviceName) + "_" + CamelCase(methodName) + "Client"\<close>
  when \<open>serverStreaming\<close> or \<open>clientStreaming\<close> is set, and \<open>"*"\<close> followed by the resolved
  output type name when the method is unary.
\<close>

theorem generateClientSignature_result_type:
  "fst (generateClientSignature L (CamelCase L (service_GetName service)) method g) =
     CamelCase L (method_GetName method) @ ''(ctx '' @ contextPkg g @ ''.Context'' @
     (if GetClientStreaming method then []
      else '', in *'' @ TypeName_ObjectNamed L (GetInputType method)) @
     '') ('' @
     (if GetServerStreaming method \<or> GetClientStreaming method
      then CamelCase L (service_GetName service) @ ''_'' @ CamelCase L (method_GetName method) @
           ''Client''
      else ''*'' @ TypeName_ObjectNamed L (GetOutputType method)) @
     '', error)''"
  by (simp add: generateClientSignature_eq)

theorem generateClientSignature_result_type_witness:
  "fst (generateClientSignature demo_lib (CamelCase demo_lib (service_GetName demo_Echo))
          demo_Watch demo_generator) =
     ''Watch(ctx context.Context, in *EchoRequest) (Echo_WatchClient, error)''
   \<and> fst (generateClientSignature demo_lib (CamelCase demo_lib (service_GetName demo_Echo))
          demo_Say demo_generator) =
     ''Say(ctx context.Context, in *EchoRequest) (*EchoResponse, error)''"
  using generateClientSignature_result_type [of demo_lib demo_Echo demo_Watch demo_generator]
    generateClientSignature_result_type [of demo_lib demo_Echo demo_Say demo_generator]
  by (simp add: demo_defs getter_defs Init_def)

text \<open>
  Claim C5. For every method the signature starts with the method name and the context
  parameter \<open>ctx <contextPkg>.Context\<close> as first argument, where \<open>contextPkg\<close> is
  \<open>context\<close> once the plugin is initialised; the parameter list then closes at once when
  \<open>clientStreaming\<close> is set, and continues with the request parameter
  \<open>in *<InputType>\<close> when it is not.
\<close>

theorem generateClientSignature_parameters:
  "prefix (CamelCase L (method_GetName method) @ ''(ctx '' @ contextPkg g @ ''.Context'' @
           (if GetClientStreaming method then '')''
            else '', in *'' @ TypeName_ObjectNamed L (GetInputType method) @ '')''))
     (fst (generateClientSignature L servName method g))
   \<and> contextPkg (Init L g) = ''context''"
  by (simp add: generateClientSignature_eq Init_def)

theorem generateClientSignature_parameters_witness:
  "prefix ''Upload(ctx context.Context)''
     (fst (generateClientSignature demo_lib ''Echo'' demo_Upload demo_generator))
   \<and> prefix ''Say(ctx context.Context, in *EchoRequest)''
     (fst (generateClientSignature demo_lib ''Echo'' demo_Say demo_generator))"
  using generateClientSignature_parameters [of demo_lib demo_Upload demo_generator "''Echo''"]
    generateClientSignature_parameters [of demo_lib demo_Say demo_generator "''Echo''"]
  by (simp add: demo_defs getter_defs Init_def)

subsection \<open>The Echo service\<close>

text \<open>
  Claim C6. For a service named \<open>Echo\<close> with one unary method \<open>Say\<close> from
  \<open>EchoRequest\<close> to \<open>EchoResponse\<close>, \<open>generateService\<close> prints the type
  \<open>EchoHandleT\<close>, the variable \<open>EchoHandle\<close> built from \<open>&_Echo_serviceDesc\<close>, the type
  \<open>KettyEchoClient\<close>, the constructor \<open>NewKettyEchoClient\<close> and the method
  \<open>Say(ctx context.Context, in *EchoRequest) (*EchoResponse, error)\<close>, whose body allocates
  the output value, calls \<open>this.client.Invoke(ctx, EchoHandle, "Say", in, out)\<close>, returns
  \<open>nil, err\<close> on an error and \<open>out, nil\<close> otherwise. The hypotheses say what the library
  does on the names of this example.
\<close>

theorem generateService_Echo:
  assumes "service_GetName service = ''Echo''"
    and "Method service = [method]"
    and "method_GetName method = ''Say''"
    and "\<not> GetClientStreaming method"
    and "\<not> GetServerStreaming method"
    and "CamelCase L ''Echo'' = ''Echo''"
    and "CamelCase L ''Say'' = ''Say''"
    and "TypeName_ObjectNamed L (GetInputType method) = ''EchoRequest''"
    and "TypeName_ObjectNamed L (GetOutputType method) = ''EchoResponse''"
    and "contextPkg g = ''context''"
  shows \<open>out (generateService L file service index g) =
     out g @
       [''type EchoHandleT struct {'',
        ''desc *grpc.ServiceDesc'',
        ''}'',
        [],
        ''func (h *EchoHandleT) Implement() interface{} {'',
        ''return h.desc'',
        ''}'',
        [],
        ''func (h *EchoHandleT) ServiceName() string {'',
        ''return h.desc.ServiceName'',
        ''}'',
        [],
        ''var EchoHandle = &EchoHandleT{ desc : &_Echo_serviceDesc }'',
        [],
        ''type KettyEchoClient struct {'',
        ''client '' @ kettyPkg g @ ''.Client'',
        ''}'',
        [],
        ''func NewKettyEchoClient (client '' @ kettyPkg g @ ''.Client) *KettyEchoClient {'',
        ''return &KettyEchoClient{client}'',
        ''}'',
        [],
        ''func (this *KettyEchoClient) Say(ctx context.Context, in *EchoRequest) (*EchoResponse, error){'',
        ''out := new(EchoResponse)'',
        ''err := this.client.Invoke(ctx, EchoHandle, "Say", in, out)'',
        ''if err != nil { return nil, err }'',
        ''return out, nil'',
        ''}'',
        []]\<close>
  unfolding generateService_eq assms methods_loop.simps
  by (simp add: method_descExpr_def assms generateClientMethod_eq generateClientSignature_eq)

theorem generateService_Echo_witness:
  \<open>out (generateService demo_lib demo_file demo_Echo 0 demo_generator) =
       [''type EchoHandleT struct {'',
        ''desc *grpc.ServiceDesc'',
        ''}'',
        [],
        ''func (h *EchoHandleT) Implement() interface{} {'',
        ''return h.desc'',
        ''}'',
        [],
        ''func (h *EchoHandleT) ServiceName() string {'',
        ''return h.desc.ServiceName'',
        ''}'',
        [],
        ''var EchoHandle = &EchoHandleT{ desc : &_Echo_serviceDesc }'',
        [],
        ''type KettyEchoClient struct {'',
        ''client ketty.Client'',
        ''}'',
        [],
        ''func NewKettyEchoClient (client ketty.Client) *KettyEchoClient {'',
        ''return &KettyEchoClient{client}'',
        ''}'',
        [],
        ''func (this *KettyEchoClient) Say(ctx context.Context, in *EchoRequest) (*EchoResponse, error){'',
        ''out := new(EchoResponse)'',
        ''err := this.client.Invoke(ctx, EchoHandle, "Say", in, out)'',
        ''if err != nil { return nil, err }'',
        ''return out, nil'',
        ''}'',
        []]\<close>
proof -
  have h: "service_GetName demo_Echo = ''Echo''" "Method demo_Echo = [demo_Say]"
    "method_GetName demo_Say = ''Say''" "\<not> GetClientStreaming demo_Say"
    "\<not> GetServerStreaming demo_Say" "CamelCase demo_lib ''Echo'' = ''Echo''"
    "CamelCase demo_lib ''Say'' = ''Say''"
    "TypeName_ObjectNamed demo_lib (GetInputType demo_Say) = ''EchoRequest''"
    "TypeName_ObjectNamed demo_lib (GetOutputType demo_Say) = ''EchoResponse''"
    "contextPkg demo_generator = ''context''"
    by (simp_all add: demo_defs getter_defs Init_def)
  have k: "kettyPkg demo_generator = ''ketty''" "out demo_generator = []"
    by (simp_all add: demo_generator_def demo_lib_def Init_def)
  show ?thesis
    using generateService_Echo [OF h, of "demo_file" 0] by (simp add: k)
qed

subsection \<open>Determinism of the pass\<close>

text \<open>
  Claim C7. Running \<open>Generate\<close> twice over the same file appends the same text both
  times: if the first run succeeds from a state \<open>g\<close>, the second run, started in the
  state the first one left, succeeds too and appends exactly the lines the first one
  appended. The derivation of a client signature, and with it of the method name it
  starts with, gives the same string before the first run, after it and after the second.
\<close>

theorem Generate_twice_same_output:
  assumes "Generate L file g = Inr g1"
  shows "\<exists>text g2. out g1 = out g @ text \<and> Generate L file g1 = Inr g2 \<and> out g2 = out g1 @ text
           \<and> (\<forall>servName method.
                 fst (generateClientSignature L servName method g1) =
                   fst (generateClientSignature L servName method g)
               \<and> fst (generateClientSignature L servName method g2) =
                   fst (generateClientSignature L servName method g))"
proof -
  have "contextPkg g = contextPkg g" "kettyPkg g = kettyPkg g" by simp_all
  from Generate_frame [OF this, of L "file"] assms obtain us ls es
    where g1: "g1 = g\<lparr>usedTypes := usedTypes g @ us, out := out g @ ls, stderr := stderr g @ es\<rparr>"
    by auto
  have c: "contextPkg g = contextPkg g1" "kettyPkg g = kettyPkg g1" by (simp_all add: g1)
  from Generate_frame [OF c, of L "file"] assms obtain us' ls' es'
    where a: "Generate L file g1 =
                Inr (g1\<lparr>usedTypes := usedTypes g1 @ us', out := out g1 @ ls',
                        stderr := stderr g1 @ es'\<rparr>)"
      and b: "g1 = g\<lparr>usedTypes := usedTypes g @ us', out := out g @ ls', stderr := stderr g @ es'\<rparr>"
    by auto
  let ?g2 = "g1\<lparr>usedTypes := usedTypes g1 @ us', out := out g1 @ ls', stderr := stderr g1 @ es'\<rparr>"
  have "out g1 = out g @ ls'" by (subst b) simp
  moreover have "out ?g2 = out g1 @ ls'" by simp
  moreover have "fst (generateClientSignature L sn m g1) = fst (generateClientSignature L sn m g)"
    for sn m
    using c by (simp add: generateClientSignature_eq)
  moreover have "fst (generateClientSignature L sn m ?g2) = fst (generateClientSignature L sn m g)"
    for sn m
    using c by (simp add: generateClientSignature_eq)
  ultimately show ?thesis using a by blast
qed

theorem Generate_twice_same_output_witness:
  "\<exists>g1. Generate demo_lib demo_file demo_generator = Inr g1
     \<and> (\<exists>text g2. out g1 = out demo_generator @ text
           \<and> Generate demo_lib demo_file g1 = Inr g2 \<and> out g2 = out g1 @ text
           \<and> (\<forall>servName method.
                 fst (generateClientSignature demo_lib servName method g1) =
                   fst (generateClientSignature demo_lib servName method demo_generator)
               \<and> fst (generateClientSignature demo_lib servName method g2) =
                   fst (generateClientSignature demo_lib servName method demo_generator)))"
proof -
  have o: "getKettyOptions demo_options =
             Inr \<lparr>isUseKettyHttpExtend = True, transport = [], marshal = []\<rparr>"
    by (auto simp add: getKettyOptions_def demo_options_def Let_def assert_PtrBool_def
        assert_PtrString_def deref_def)
  have "\<exists>g1. Generate demo_lib demo_file demo_generator = Inr g1"
    by (simp add: Generate_def Let_def demo_file_def demo_message_def o)
  then obtain g1 where g1: "Generate demo_lib demo_file demo_generator = Inr g1" by blast
  from Generate_twice_same_output [OF g1] g1 show ?thesis by blast
qed

subsection \<open>The body of a client method\<close>

text \<open>
  Claim C8. \<open>generateClientMethod\<close> prints the same unary body for every method, whatever
  its streaming flags: after the line of the signature come the allocation of the output
  value, the call of \<open>this.client.Invoke\<close> that passes the identifier \<open>in\<close>, the two
  returns and the closing brace. For a method with \<open>clientStreaming\<close> set the signature
  on the first line has no parameter \<open>in\<close>, and the body passes \<open>in\<close> all the same.
\<close>

theorem generateClientMethod_body_any_flags:
  \<open>out (generateClientMethod L servName fullServName serviceDescVar method descExpr g) =
     out g @
       [''func (this *Ketty'' @ servName @ ''Client) '' @
          fst (generateClientSignature L servName method g) @ ''{'',
        ''out := new('' @ TypeName_ObjectNamed L (GetOutputType method) @ '')'',
        ''err := this.client.Invoke(ctx, '' @ servName @ ''Handle, "'' @
          CamelCase L (method_GetName method) @ ''", in, out)'',
        ''if err != nil { return nil, err }'',
        ''return out, nil'',
        ''}'',
        []]
   \<and> (GetClientStreaming method \<longrightarrow>
        fst (generateClientSignature L servName method g) =
          CamelCase L (method_GetName method) @ ''(ctx '' @ contextPkg g @ ''.Context) ('' @
          servName @ ''_'' @ CamelCase L (method_GetName method) @ ''Client, error)'')\<close>
  by (simp add: generateClientMethod_eq generateClientSignature_eq)

theorem generateClientMethod_body_any_flags_witness:
  \<open>GetClientStreaming demo_Upload
   \<and> out (generateClientMethod demo_lib ''Echo'' ''demo.Echo'' ''_Echo_serviceDesc'' demo_Upload
           ''&_Echo_serviceDesc.Streams[0]'' demo_generator) =
       [''func (this *KettyEchoClient) Upload(ctx context.Context) (Echo_UploadClient, error){'',
        ''out := new(EchoResponse)'',
        ''err := this.client.Invoke(ctx, EchoHandle, "Upload", in, out)'',
        ''if err != nil { return nil, err }'',
        ''return out, nil'',
        ''}'',
        []]\<close>
  using generateClientMethod_body_any_flags
    [of demo_lib "''Echo''" "''demo.Echo''" "''_Echo_serviceDesc''" demo_Upload
        "''&_Echo_serviceDesc.Streams[0]''" demo_generator]
  by (simp add: demo_defs getter_defs Init_def)

end
